theory Spec2Isabelle
  imports Main "HOL-Library.Word"
begin

section \<open>JavaScript strings\<close>

text \<open>
  A JavaScript string is a sequence of 16-bit code units. String literals of the source
  are ASCII and are written with \<open>lit\<close>. A string is falsy exactly when it is empty.
\<close>

type_synonym jsstring = "16 word list"

definition lit :: "string \<Rightarrow> jsstring" where
  "lit s = map (\<lambda>c. word_of_nat (of_char c)) s"

text \<open>
  \<open>String.prototype.trim\<close> strips the code units of the ECMAScript productions
  WhiteSpace and LineTerminator from both ends.
\<close>

definition isWhiteSpace :: "16 word \<Rightarrow> bool" where
  "isWhiteSpace c \<longleftrightarrow>
     c = 0x0009 \<or> c = 0x000A \<or> c = 0x000B \<or> c = 0x000C \<or> c = 0x000D \<or>
     c = 0x0020 \<or> c = 0x00A0 \<or> c = 0x1680 \<or>
     c = 0x2000 \<or> c = 0x2001 \<or> c = 0x2002 \<or> c = 0x2003 \<or> c = 0x2004 \<or>
     c = 0x2005 \<or> c = 0x2006 \<or> c = 0x2007 \<or> c = 0x2008 \<or> c = 0x2009 \<or>
     c = 0x200A \<or> c = 0x2028 \<or> c = 0x2029 \<or> c = 0x202F \<or> c = 0x205F \<or>
     c = 0x3000 \<or> c = 0xFEFF"

definition trim :: "jsstring \<Rightarrow> jsstring" where
  "trim s = rev (dropWhile isWhiteSpace (rev (dropWhile isWhiteSpace s)))"

text \<open>\<open>a || b\<close> on an optional string: \<open>undefined\<close>, \<open>null\<close> and \<open>''\<close> are falsy.\<close>

definition or_else :: "jsstring option \<Rightarrow> jsstring \<Rightarrow> jsstring" where
  "or_else a b = (case a of None \<Rightarrow> b | Some x \<Rightarrow> if x = [] then b else x)"

section \<open>HTTP\<close>

text \<open>
  A request is logged by method and URL; a POST carries the \<open>message\<close> field of its
  JSON body. A \<open>fetch\<close> followed by \<open>response.json()\<close> settles in one of four ways:
  the promise rejects, the response is not ok (its status code is kept), the body is not
  JSON, or the body parses.
\<close>

datatype request = GET jsstring | POST jsstring jsstring

datatype 'a fetch_outcome = Rejected | NotOk nat | BadJson | Json 'a

definition status_url :: "jsstring \<Rightarrow> jsstring" where
  "status_url jobId = lit ''http://localhost:8000/api/status/'' @ jobId"

definition chat_url :: "jsstring \<Rightarrow> jsstring" where
  "chat_url jobId = lit ''http://localhost:8000/api/jobs/'' @ jobId @ lit ''/chat''"

section \<open>The results page (app/results/[jobId]/page.tsx)\<close>

subsection \<open>Data\<close>

text \<open>
  The JSON of \<open>GET /api/status/{jobId}\<close>. The payloads handed to the child components
  are opaque (\<open>'p\<close>). \<open>job_id\<close> and \<open>job_progress\<close> are the id and progress fields of the
  job record; the page reads neither.
\<close>

record metadata_t =
  title :: jsstring
  authors :: jsstring

record 'p analysis_result =
  metadata :: "metadata_t option"
  key_concepts :: 'p
  problem_statement :: 'p
  full_explanation :: 'p
  pseudo_code :: 'p

record 'p job_record =
  job_id :: jsstring
  status :: jsstring
  job_progress :: nat
  job_error :: "jsstring option"
  filename :: "jsstring option"
  result :: "'p analysis_result option"

text \<open>
  What a run of the effect leaves behind when the effect runs again: its own
  \<open>progressCounter\<close> and the number of its fetches still under way. Its timers are
  cleared by then.
\<close>

record run_closure =
  old_progressCounter :: nat
  old_pending :: nat

text \<open>
  The five \<open>useState\<close> cells, the closure variable \<open>progressCounter\<close> of the current
  run of the effect, and its two timers: a timer is \<open>Some delay\<close> while armed and
  \<open>None\<close> once cleared. \<open>requests\<close> logs the fetches issued so far and \<open>pending\<close>
  counts those of the current run not yet settled. \<open>stale\<close> holds the closures of the
  earlier runs of the effect, and \<open>mounted\<close> tells whether the component is mounted.
\<close>

record 'p page_state =
  loading :: bool
  data :: "'p job_record option"
  error :: "jsstring option"
  progress :: nat
  statusMessage :: jsstring
  progressCounter :: nat
  pollingInterval :: "nat option"
  progressInterval :: "nat option"
  requests :: "request list"
  pending :: nat
  stale :: "run_closure list"
  mounted :: bool

subsection \<open>The effect\<close>

text \<open>\<open>fetchData\<close> up to its first \<open>await\<close>: the GET is issued.\<close>

definition fetchData_begin :: "jsstring \<Rightarrow> 'p page_state \<Rightarrow> 'p page_state" where
  "fetchData_begin jobId s =
     s\<lparr>requests := requests s @ [GET (status_url jobId)], pending := Suc (pending s)\<rparr>"

text \<open>
  \<open>fetchData\<close> after the fetch has settled. \<open>rnd\<close> is the value of
  \<open>Math.floor(Math.random() * 5)\<close>, one of 0..4.
\<close>

definition fetchData_settled ::
  "'p job_record fetch_outcome \<Rightarrow> nat \<Rightarrow> 'p page_state \<Rightarrow> 'p page_state" where
  "fetchData_settled out rnd s =
     (case out of
        Json responseData \<Rightarrow>
          if status responseData = lit ''completed'' then
            s\<lparr>data := Some responseData, loading := False, pollingInterval := None\<rparr>
          else if status responseData = lit ''in_progress'' then
            (let s1 = s\<lparr>statusMessage :=
                        lit ''Analyzing paper: '' @
                        or_else (filename responseData) (lit ''your document'')\<rparr>
             in if progressCounter s1 < 90 then
                  (let c = progressCounter s1 + (rnd + 1)
                   in s1\<lparr>progressCounter := c, progress := min c 90\<rparr>)
                else s1)
          else if status responseData = lit ''failed'' then
            s\<lparr>error := Some (lit ''Analysis failed: '' @
                               or_else (job_error responseData) (lit ''Unknown error'')),
              loading := False, pollingInterval := None\<rparr>
          else s
      | _ \<Rightarrow>
          s\<lparr>error := Some (lit ''Failed to connect to analysis server. Please try again later.''),
            loading := False, pollingInterval := None\<rparr>)"

text \<open>The callback of the progress timer.\<close>

definition progressInterval_callback :: "'p page_state \<Rightarrow> 'p page_state" where
  "progressInterval_callback s =
     (if progressCounter s < 90 then
        (let c = progressCounter s + 1 in s\<lparr>progressCounter := c, progress := c\<rparr>)
      else s)"

text \<open>The function the effect returns.\<close>

definition cleanup :: "'p page_state \<Rightarrow> 'p page_state" where
  "cleanup s = s\<lparr>pollingInterval := None, progressInterval := None\<rparr>"

text \<open>
  The state once the component has mounted and the effect body has run: the initial
  values of the state cells, one fetch under way, both timers armed.
\<close>

definition mount :: "jsstring \<Rightarrow> 'p page_state" where
  "mount jobId =
     (fetchData_begin jobId
        \<lparr>loading = True, data = None, error = None, progress = 0,
         statusMessage = lit ''Initializing analysis...'', progressCounter = 0,
         pollingInterval = None, progressInterval = None, requests = [], pending = 0,
         stale = [], mounted = True\<rparr>)
       \<lparr>pollingInterval := Some 3000, progressInterval := Some 500\<rparr>"

text \<open>
  The effect running again on the mounted component (its dependencies are \<open>[jobId]\<close>):
  the cleanup of the run that ends, then the effect body afresh for \<open>jobId\<close>, with a
  new \<open>progressCounter\<close> at 0, the call of \<open>fetchData\<close> and two new timers. The
  \<open>useState\<close> cells are kept. The closure of the run that ends goes to \<open>stale\<close>.
\<close>

definition rerun :: "jsstring \<Rightarrow> 'p page_state \<Rightarrow> 'p page_state" where
  "rerun jobId s =
     (fetchData_begin jobId
        ((cleanup s)
           \<lparr>stale := stale s @ [\<lparr>old_progressCounter = progressCounter s, old_pending = pending s\<rparr>],
            progressCounter := 0, pending := 0\<rparr>))
       \<lparr>pollingInterval := Some 3000, progressInterval := Some 500\<rparr>"

text \<open>The component unmounting: the cleanup runs, and the effect never runs again.\<close>

definition unmount :: "'p page_state \<Rightarrow> 'p page_state" where
  "unmount s = (cleanup s)\<lparr>mounted := False\<rparr>"

text \<open>
  A fetch of an earlier run settling: \<open>fetchData\<close> continues in the closure of that run,
  with that run's \<open>progressCounter\<close> and its polling timer, which is cleared, and writes
  to the same cells.
\<close>

definition fetchData_settled_stale ::
  "nat \<Rightarrow> 'p job_record fetch_outcome \<Rightarrow> nat \<Rightarrow> 'p page_state \<Rightarrow> 'p page_state" where
  "fetchData_settled_stale i out rnd s =
     (if i < length (stale s) then
        (let old = stale s ! i;
             t = fetchData_settled out rnd
                   (s\<lparr>progressCounter := old_progressCounter old, pollingInterval := None\<rparr>)
         in t\<lparr>progressCounter := progressCounter s, pollingInterval := pollingInterval s,
              stale := (stale s)[i := \<lparr>old_progressCounter = progressCounter t,
                                       old_pending = old_pending old - 1\<rparr>]\<rparr>)
      else s)"

subsection \<open>Events\<close>

text \<open>
  What can happen to a page: the polling timer fires, a fetch of the current run settles,
  the progress timer fires, the component unmounts, the effect runs again for a (new)
  \<open>jobId\<close>, or a fetch of an earlier run settles. A cleared timer does not fire, and
  the effect of an unmounted component does not run again. After the unmount the handlers
  of the fetches still under way run as written, although nothing renders what they write.
\<close>

datatype 'p page_event =
    PollingFires
  | FetchSettles "'p job_record fetch_outcome" nat
  | ProgressFires
  | Unmount
  | EffectReruns jsstring
  | StaleFetchSettles nat "'p job_record fetch_outcome" nat

fun enabled :: "'p page_event \<Rightarrow> 'p page_state \<Rightarrow> bool" where
  "enabled PollingFires s = (pollingInterval s \<noteq> None)"
| "enabled (FetchSettles out rnd) s = (0 < pending s \<and> rnd < 5)"
| "enabled ProgressFires s = (progressInterval s \<noteq> None)"
| "enabled Unmount s = mounted s"
| "enabled (EffectReruns newJobId) s = mounted s"
| "enabled (StaleFetchSettles i out rnd) s =
     (i < length (stale s) \<and> 0 < old_pending (stale s ! i) \<and> rnd < 5)"

fun fire :: "jsstring \<Rightarrow> 'p page_event \<Rightarrow> 'p page_state \<Rightarrow> 'p page_state" where
  "fire jobId PollingFires s = fetchData_begin jobId s"
| "fire jobId (FetchSettles out rnd) s = fetchData_settled out rnd (s\<lparr>pending := pending s - 1\<rparr>)"
| "fire jobId ProgressFires s = progressInterval_callback s"
| "fire jobId Unmount s = unmount s"
| "fire jobId (EffectReruns newJobId) s = rerun newJobId s"
| "fire jobId (StaleFetchSettles i out rnd) s = fetchData_settled_stale i out rnd s"

text \<open>The \<open>jobId\<close> the effect closes over after an event.\<close>

fun next_jobId :: "jsstring \<Rightarrow> 'p page_event \<Rightarrow> jsstring" where
  "next_jobId jobId (EffectReruns newJobId) = newJobId"
| "next_jobId jobId e = jobId"

text \<open>\<open>run\<close> plays a schedule and is \<open>None\<close> when the schedule asks for an event that is not enabled.\<close>

fun run :: "jsstring \<Rightarrow> 'p page_event list \<Rightarrow> 'p page_state \<Rightarrow> 'p page_state option" where
  "run jobId [] s = Some s"
| "run jobId (e # es) s =
     (if enabled e s then run (next_jobId jobId e) es (fire jobId e s) else None)"


subsection \<open>Rendering\<close>

text \<open>
  The three returns of the component. The page mounts four child components; the
  repository also has the components \<open>ArchitectureDeepDive\<close> and \<open>ModelFile\<close>.
  Reading \<open>metadata.title\<close> of a result without metadata throws.
\<close>

datatype 'p panel =
    KeyConcepts 'p
  | ProblemStatement 'p
  | FullExplanation 'p
  | PseudoCode 'p
  | ArchitectureDeepDive 'p
  | ModelFile jsstring

datatype 'p view =
    LoadingView jsstring jsstring nat
  | NotFoundView
  | AnalysisView jsstring jsstring "'p panel list"

datatype render_error = TypeError

definition render :: "jsstring \<Rightarrow> 'p page_state \<Rightarrow> render_error + 'p view" where
  "render jobId s =
     (if loading s then Inr (LoadingView jobId (statusMessage s) (progress s))
      else case data s of
        None \<Rightarrow> Inr NotFoundView
      | Some d \<Rightarrow>
          (case result d of
             None \<Rightarrow> Inr NotFoundView
           | Some r \<Rightarrow>
               (case metadata r of
                  None \<Rightarrow> Inl TypeError
                | Some m \<Rightarrow>
                    Inr (AnalysisView (title m) (authors m)
                          [KeyConcepts (key_concepts r), ProblemStatement (problem_statement r),
                           FullExplanation (full_explanation r), PseudoCode (pseudo_code r)]))))"

text \<open>What a view shows: its title, if it has one, and the child components it mounts.\<close>

fun rendered_title :: "render_error + 'p view \<Rightarrow> jsstring option" where
  "rendered_title (Inr (AnalysisView t a ps)) = Some t"
| "rendered_title _ = None"

fun panels :: "render_error + 'p view \<Rightarrow> 'p panel list" where
  "panels (Inr (AnalysisView t a ps)) = ps"
| "panels _ = []"

fun is_ArchitectureDeepDive :: "'p panel \<Rightarrow> bool" where
  "is_ArchitectureDeepDive (ArchitectureDeepDive d) = True"
| "is_ArchitectureDeepDive _ = False"

fun is_ModelFile :: "'p panel \<Rightarrow> bool" where
  "is_ModelFile (ModelFile code) = True"
| "is_ModelFile _ = False"

text \<open>Schedules of one run of the effect along which the job stays unfinished: no fetch
  fails, no response is \<open>completed\<close> or \<open>failed\<close>, and the effect is neither cleaned
  up nor run again.\<close>

fun keeps_polling :: "'p page_event \<Rightarrow> bool" where
  "keeps_polling (FetchSettles (Json r) rnd) =
     (status r \<noteq> lit ''completed'' \<and> status r \<noteq> lit ''failed'')"
| "keeps_polling (FetchSettles out rnd) = False"
| "keeps_polling Unmount = False"
| "keeps_polling (EffectReruns newJobId) = False"
| "keeps_polling (StaleFetchSettles i out rnd) = False"
| "keeps_polling e = True"

text \<open>Events that leave the current run of the effect in place.\<close>

fun one_run :: "'p page_event \<Rightarrow> bool" where
  "one_run (EffectReruns newJobId) = False"
| "one_run e = True"


text \<open>A fetch that did not deliver a parsed body.\<close>

fun failed_fetch :: "'a fetch_outcome \<Rightarrow> bool" where
  "failed_fetch (Json b) = False"
| "failed_fetch out = True"

section \<open>The chat panel (ChatPanel)\<close>

subsection \<open>Data\<close>

record ChatMessage =
  timestamp :: jsstring
  query :: jsstring
  response :: jsstring

text \<open>The JSON of \<open>GET /api/jobs/{jobId}/chat\<close>; \<open>chat_history\<close> may be missing.\<close>

record chat_log =
  chat_history :: "ChatMessage list option"

text \<open>The six \<open>useState\<close> cells and the log of the requests the panel has issued.\<close>

record chat_state =
  isOpen :: bool
  chatHistory :: "ChatMessage list"
  message :: jsstring
  isLoading :: bool
  panelWidth :: int
  isResizing :: bool
  sent :: "request list"

definition minWidth :: int where
  "minWidth = 320"

definition maxWidth :: int where
  "maxWidth = 1200"

definition initial_panel :: chat_state where
  "initial_panel =
     \<lparr>isOpen = False, chatHistory = [], message = [], isLoading = False,
      panelWidth = 384, isResizing = False, sent = []\<rparr>"

subsection \<open>Handlers\<close>

definition fetchChatHistory_begin :: "jsstring \<Rightarrow> chat_state \<Rightarrow> chat_state" where
  "fetchChatHistory_begin jobId s = s\<lparr>sent := sent s @ [GET (chat_url jobId)]\<rparr>"

text \<open>\<open>fetchChatHistory\<close> after its fetch has settled; the catch only logs.\<close>

definition fetchChatHistory_settled :: "chat_log fetch_outcome \<Rightarrow> chat_state \<Rightarrow> chat_state" where
  "fetchChatHistory_settled out s =
     (case out of
        Json d \<Rightarrow> s\<lparr>chatHistory := (case chat_history d of None \<Rightarrow> [] | Some h \<Rightarrow> h)\<rparr>
      | _ \<Rightarrow> s)"

text \<open>
  \<open>sendMessage\<close> up to its \<open>await\<close>. \<open>now\<close> is the value of
  \<open>new Date().toISOString()\<close>.
\<close>

definition sendMessage_begin :: "jsstring \<Rightarrow> jsstring \<Rightarrow> chat_state \<Rightarrow> chat_state" where
  "sendMessage_begin jobId now s =
     (if trim (message s) = [] then s
      else
        (let currentMessage = message s;
             tempChat = \<lparr>timestamp = now, query = currentMessage, response = []\<rparr>
         in s\<lparr>message := [], isLoading := True,
              chatHistory := chatHistory s @ [tempChat],
              sent := sent s @ [POST (chat_url jobId) currentMessage]\<rparr>))"

text \<open>The updater the catch block passes to \<open>setChatHistory\<close>.\<close>

definition mark_failed :: "ChatMessage list \<Rightarrow> ChatMessage list" where
  "mark_failed prev =
     (let updated = prev; lastIndex = int (length updated) - 1
      in if lastIndex \<ge> 0 then
           updated[nat lastIndex :=
             (updated ! nat lastIndex)
               \<lparr>response := lit ''Sorry, there was an error processing your request. Please try again.''\<rparr>]
         else updated)"

text \<open>
  \<open>sendMessage\<close> after the POST has settled: a parsed body starts
  \<open>fetchChatHistory\<close> (not awaited), anything else runs the catch block; the
  \<open>finally\<close> block runs in both cases.
\<close>

definition sendMessage_settled :: "jsstring \<Rightarrow> unit fetch_outcome \<Rightarrow> chat_state \<Rightarrow> chat_state" where
  "sendMessage_settled jobId out s =
     (case out of
        Json u \<Rightarrow> (fetchChatHistory_begin jobId s)\<lparr>isLoading := False\<rparr>
      | _ \<Rightarrow> s\<lparr>chatHistory := mark_failed (chatHistory s), isLoading := False\<rparr>)"

text \<open>\<open>togglePanel\<close>, followed by the effect on \<open>[isOpen, jobId]\<close>.\<close>

definition togglePanel :: "jsstring \<Rightarrow> chat_state \<Rightarrow> chat_state" where
  "togglePanel jobId s =
     (let s1 = s\<lparr>isOpen := \<not> isOpen s\<rparr>
      in if isOpen s1 then fetchChatHistory_begin jobId s1 else s1)"

definition handleKeyDown :: "jsstring \<Rightarrow> jsstring \<Rightarrow> jsstring \<Rightarrow> bool \<Rightarrow> chat_state \<Rightarrow> chat_state" where
  "handleKeyDown jobId now key shiftKey s =
     (if key = lit ''Enter'' \<and> \<not> shiftKey then sendMessage_begin jobId now s else s)"

definition startResizing :: "chat_state \<Rightarrow> chat_state" where
  "startResizing s = s\<lparr>isResizing := True\<rparr>"

definition handleMouseUp :: "chat_state \<Rightarrow> chat_state" where
  "handleMouseUp s = s\<lparr>isResizing := False\<rparr>"

text \<open>\<open>innerWidth\<close> is \<open>window.innerWidth\<close> and \<open>clientX\<close> is \<open>e.clientX\<close>, in pixels.\<close>

definition handleMouseMove :: "int \<Rightarrow> int \<Rightarrow> chat_state \<Rightarrow> chat_state" where
  "handleMouseMove innerWidth clientX s =
     (if \<not> isResizing s then s
      else
        (let newWidth = innerWidth - clientX
         in if newWidth \<ge> minWidth \<and> newWidth \<le> maxWidth then s\<lparr>panelWidth := newWidth\<rparr>
            else s))"

subsection \<open>Events\<close>

datatype chat_event =
    Toggle
  | Change jsstring
  | Send jsstring
  | KeyDown jsstring jsstring bool
  | PostSettles "unit fetch_outcome"
  | HistorySettles "chat_log fetch_outcome"
  | MouseDown
  | MouseMove int int
  | MouseUp

fun chat_fire :: "jsstring \<Rightarrow> chat_event \<Rightarrow> chat_state \<Rightarrow> chat_state" where
  "chat_fire jobId Toggle s = togglePanel jobId s"
| "chat_fire jobId (Change text) s = s\<lparr>message := text\<rparr>"
| "chat_fire jobId (Send now) s = sendMessage_begin jobId now s"
| "chat_fire jobId (KeyDown now key shiftKey) s = handleKeyDown jobId now key shiftKey s"
| "chat_fire jobId (PostSettles out) s = sendMessage_settled jobId out s"
| "chat_fire jobId (HistorySettles out) s = fetchChatHistory_settled out s"
| "chat_fire jobId MouseDown s = startResizing s"
| "chat_fire jobId (MouseMove innerWidth clientX) s = handleMouseMove innerWidth clientX s"
| "chat_fire jobId MouseUp s = handleMouseUp s"

fun chat_run :: "jsstring \<Rightarrow> chat_event list \<Rightarrow> chat_state \<Rightarrow> chat_state" where
  "chat_run jobId [] s = s"
| "chat_run jobId (e # es) s = chat_run jobId es (chat_fire jobId e s)"

section \<open>Invariants\<close>


text \<open>A settled fetch that ends the job in failure: the fetch itself failed, or the status is \<open>failed\<close>.\<close>

fun reports_failure :: "'p job_record fetch_outcome \<Rightarrow> bool" where
  "reports_failure (Json r) = (status r = lit ''failed'')"
| "reports_failure out = True"

section \<open>Facts about strings\<close>

lemma word_of_char_inj:
  "(word_of_nat (of_char c) :: 16 word) = word_of_nat (of_char d) \<longleftrightarrow> c = d"
proof
  assume h: "(word_of_nat (of_char c) :: 16 word) = word_of_nat (of_char d)"
  have b: "(of_char x :: nat) < 2 ^ 16" for x :: char
    by (rule less_trans[OF nat_of_char_less_256]) simp
  from h have "unat (word_of_nat (of_char c) :: 16 word) = unat (word_of_nat (of_char d) :: 16 word)"
    by simp
  then have "(of_char c :: nat) = of_char d"
    using b[of c] b[of d] by (simp add: unat_of_nat take_bit_nat_eq_self)
  then show "c = d" by simp
qed simp

lemma lit_eq_iff [simp]: "lit a = lit b \<longleftrightarrow> a = b"
proof (induction a arbitrary: b)
  case Nil
  show ?case by (cases b) (simp_all add: lit_def)
next
  case (Cons x xs)
  show ?case
  proof (cases b)
    case Nil
    then show ?thesis by (simp add: lit_def)
  next
    case (Cons y ys)
    have "lit (x # xs) = lit (y # ys) \<longleftrightarrow> x = y \<and> lit xs = lit ys"
      by (simp add: lit_def word_of_char_inj)
    with Cons.IH[of ys] Cons show ?thesis by simp
  qed
qed

lemma lit_append: "lit (a @ b) = lit a @ lit b"
  by (simp add: lit_def)

lemma trim_blank: "trim s = [] \<longleftrightarrow> list_all isWhiteSpace s"
proof
  assume "trim s = []"
  then have a: "\<forall>x\<in>set (dropWhile isWhiteSpace s). isWhiteSpace x"
    by (simp add: trim_def dropWhile_eq_Nil_conv)
  have "dropWhile isWhiteSpace s = []"
  proof (rule ccontr)
    assume n: "dropWhile isWhiteSpace s \<noteq> []"
    then have "\<not> isWhiteSpace (hd (dropWhile isWhiteSpace s))"
      by (rule hd_dropWhile)
    moreover have "hd (dropWhile isWhiteSpace s) \<in> set (dropWhile isWhiteSpace s)"
      using n by simp
    ultimately show False using a by blast
  qed
  then show "list_all isWhiteSpace s"
    by (simp add: dropWhile_eq_Nil_conv list_all_iff)
next
  assume "list_all isWhiteSpace s"
  then have "dropWhile isWhiteSpace s = []"
    by (simp add: dropWhile_eq_Nil_conv list_all_iff)
  then show "trim s = []"
    unfolding trim_def by (simp only: rev.simps dropWhile.simps)
qed

lemma lit_eq_Nil [simp]: "lit a = [] \<longleftrightarrow> a = []"
  by (simp add: lit_def)

section \<open>Facts about the handlers of the results page\<close>

lemma fetchData_settled_polling_cleared:
  "pollingInterval s = None \<Longrightarrow> pollingInterval (fetchData_settled out rnd s) = None"
  by (cases out) (simp_all add: fetchData_settled_def Let_def)

lemma fetchData_settled_frame:
  "requests (fetchData_settled out rnd s) = requests s \<and>
   pending (fetchData_settled out rnd s) = pending s \<and>
   progressInterval (fetchData_settled out rnd s) = progressInterval s \<and>
   stale (fetchData_settled out rnd s) = stale s \<and>
   mounted (fetchData_settled out rnd s) = mounted s"
  by (cases out) (simp_all add: fetchData_settled_def Let_def)

lemma fetchData_settled_loading:
  "\<not> loading s \<Longrightarrow> \<not> loading (fetchData_settled out rnd s)"
  by (cases out) (simp_all add: fetchData_settled_def Let_def)


lemma progressInterval_callback_frame:
  "requests (progressInterval_callback s) = requests s \<and>
   pollingInterval (progressInterval_callback s) = pollingInterval s \<and>
   progressInterval (progressInterval_callback s) = progressInterval s \<and>
   loading (progressInterval_callback s) = loading s \<and>
   stale (progressInterval_callback s) = stale s \<and>
   mounted (progressInterval_callback s) = mounted s"
  by (simp add: progressInterval_callback_def Let_def)

lemma fetchData_settled_stale_frame:
  "requests (fetchData_settled_stale i out rnd s) = requests s \<and>
   pending (fetchData_settled_stale i out rnd s) = pending s \<and>
   pollingInterval (fetchData_settled_stale i out rnd s) = pollingInterval s \<and>
   progressInterval (fetchData_settled_stale i out rnd s) = progressInterval s \<and>
   progressCounter (fetchData_settled_stale i out rnd s) = progressCounter s \<and>
   mounted (fetchData_settled_stale i out rnd s) = mounted s"
  using fetchData_settled_frame[of out rnd
      "s\<lparr>progressCounter := old_progressCounter (stale s ! i), pollingInterval := None\<rparr>"]
  by (simp add: fetchData_settled_stale_def Let_def)

lemma fetchData_settled_stale_loading:
  "\<not> loading s \<Longrightarrow> \<not> loading (fetchData_settled_stale i out rnd s)"
  using fetchData_settled_loading[of
      "s\<lparr>progressCounter := old_progressCounter (stale s ! i), pollingInterval := None\<rparr>" out rnd]
  by (simp add: fetchData_settled_stale_def Let_def)




lemma fire_polling_cleared:
  assumes "enabled e s" and "pollingInterval s = None" and "one_run e"
  shows "pollingInterval (fire jobId e s) = None \<and> requests (fire jobId e s) = requests s \<and>
         e \<noteq> PollingFires"
proof (cases e)
  case PollingFires
  with assms show ?thesis by simp
next
  case (FetchSettles out rnd)
  then show ?thesis
    using fetchData_settled_polling_cleared[of "s\<lparr>pending := pending s - 1\<rparr>" out rnd]
      fetchData_settled_frame[of out rnd "s\<lparr>pending := pending s - 1\<rparr>"] assms(2)
    by simp
next
  case ProgressFires
  then show ?thesis using assms(2) by (simp add: progressInterval_callback_frame)
next
  case Unmount
  then show ?thesis using assms(2) by (simp add: unmount_def cleanup_def)
next
  case (EffectReruns newJobId)
  with assms(3) show ?thesis by simp
next
  case (StaleFetchSettles i out rnd)
  then show ?thesis using assms(2) by (simp add: fetchData_settled_stale_frame)
qed


lemma run_polling_cleared:
  assumes "run jobId evs s = Some s'" and "pollingInterval s = None" and "list_all one_run evs"
  shows "pollingInterval s' = None \<and> requests s' = requests s \<and> PollingFires \<notin> set evs"
  using assms
proof (induction evs arbitrary: s jobId)
  case Nil
  then show ?case by simp
next
  case (Cons e es)
  from Cons.prems have en: "enabled e s"
    and rest: "run (next_jobId jobId e) es (fire jobId e s) = Some s'"
    and o: "one_run e" and os: "list_all one_run es"
    by (simp_all split: if_splits)
  from fire_polling_cleared[OF en Cons.prems(2) o, of jobId]
  have keep: "pollingInterval (fire jobId e s) = None" "requests (fire jobId e s) = requests s"
    "e \<noteq> PollingFires"
    by simp_all
  from Cons.IH[OF rest keep(1) os] keep show ?case by auto
qed



lemma fire_loading:
  assumes "\<not> loading s"
  shows "\<not> loading (fire jobId e s)"
proof (cases e)
  case (FetchSettles out rnd)
  then show ?thesis
    using fetchData_settled_loading[of "s\<lparr>pending := pending s - 1\<rparr>" out rnd] assms
    by simp
next
  case (StaleFetchSettles i out rnd)
  then show ?thesis using assms by (simp add: fetchData_settled_stale_loading)
qed (use assms in \<open>simp_all add: fetchData_begin_def progressInterval_callback_frame
       unmount_def rerun_def cleanup_def\<close>)

lemma run_loading:
  assumes "run jobId evs s = Some s'" and "\<not> loading s"
  shows "\<not> loading s'"
  using assms
proof (induction evs arbitrary: s jobId)
  case Nil
  then show ?case by simp
next
  case (Cons e es)
  from Cons.prems have rest: "run (next_jobId jobId e) es (fire jobId e s) = Some s'"
    by (simp split: if_splits)
  from Cons.IH[OF rest fire_loading[OF Cons.prems(2)]] show ?case .
qed

lemma fire_keeps_polling:
  assumes "keeps_polling e"
  shows "pollingInterval (fire jobId e s) = pollingInterval s \<and>
         requests (fire jobId e s) =
           requests s @ replicate (count_list [e] PollingFires) (GET (status_url jobId)) \<and>
         next_jobId jobId e = jobId"
proof (cases e)
  case PollingFires
  then show ?thesis by (simp add: fetchData_begin_def)
next
  case (FetchSettles out rnd)
  with assms obtain r where o: "out = Json r"
    and st: "status r \<noteq> lit ''completed''" "status r \<noteq> lit ''failed''"
    by (cases out) simp_all
  from FetchSettles o st show ?thesis
    by (simp add: fetchData_settled_def Let_def)
next
  case ProgressFires
  then show ?thesis by (simp add: progressInterval_callback_frame)
qed (use assms in simp_all)

lemma run_keeps_polling:
  assumes "run jobId evs s = Some s'" and "list_all keeps_polling evs"
  shows "pollingInterval s' = pollingInterval s \<and>
         requests s' = requests s @ replicate (count_list evs PollingFires) (GET (status_url jobId))"
  using assms
proof (induction evs arbitrary: s)
  case Nil
  then show ?case by simp
next
  case (Cons e es)
  from Cons.prems have k: "keeps_polling e" and ks: "list_all keeps_polling es"
    by simp_all
  from fire_keeps_polling[OF k, of jobId s]
  have f: "pollingInterval (fire jobId e s) = pollingInterval s"
    "requests (fire jobId e s) =
       requests s @ replicate (count_list [e] PollingFires) (GET (status_url jobId))"
    "next_jobId jobId e = jobId"
    by simp_all
  from Cons.prems(1) f(3) have rest: "run jobId es (fire jobId e s) = Some s'"
    by (simp split: if_splits)
  from f Cons.IH[OF rest ks]
  show ?case by (simp add: replicate_add[symmetric])
qed

section \<open>Facts about the progress bar\<close>







section \<open>Facts about the chat panel\<close>

lemma mark_failed_eq:
  "mark_failed h =
     (if h = [] then []
      else butlast h @
        [(last h)\<lparr>response := lit ''Sorry, there was an error processing your request. Please try again.''\<rparr>])"
proof (cases h rule: rev_cases)
  case Nil
  then show ?thesis by (simp add: mark_failed_def)
next
  case (snoc ys y)
  have "nat (int (length (ys @ [y])) - 1) = length ys" by simp
  then show ?thesis
    unfolding snoc mark_failed_def Let_def by simp
qed

lemma chat_fire_width:
  assumes "minWidth \<le> panelWidth s \<and> panelWidth s \<le> maxWidth"
  shows "minWidth \<le> panelWidth (chat_fire jobId e s) \<and> panelWidth (chat_fire jobId e s) \<le> maxWidth"
proof (cases e)
  case (PostSettles out)
  with assms show ?thesis
    by (cases out) (simp_all add: sendMessage_settled_def fetchChatHistory_begin_def)
next
  case (HistorySettles out)
  with assms show ?thesis
    by (cases out) (simp_all add: fetchChatHistory_settled_def)
next
  case (MouseMove innerWidth clientX)
  with assms show ?thesis by (simp add: handleMouseMove_def Let_def)
qed (use assms in \<open>simp_all add: togglePanel_def fetchChatHistory_begin_def sendMessage_begin_def
       handleKeyDown_def startResizing_def handleMouseUp_def Let_def\<close>)

lemma chat_run_width:
  assumes "minWidth \<le> panelWidth s \<and> panelWidth s \<le> maxWidth"
  shows "minWidth \<le> panelWidth (chat_run jobId evs s) \<and> panelWidth (chat_run jobId evs s) \<le> maxWidth"
  using assms
proof (induction evs arbitrary: s)
  case Nil
  then show ?case by simp
next
  case (Cons e es)
  from Cons.IH[OF chat_fire_width[OF Cons.prems, of jobId e]] show ?case by simp
qed

section \<open>A completed job\<close>

text \<open>
  A completed response need not carry a result. Settled on the freshly mounted page, such
  a response stops the polling and clears the loading state, but the view is the
  \<open>Analysis not found\<close> one and shows no title.
\<close>

theorem completed_without_result_counterexample:
  "status \<lparr>job_id = lit ''job-1'', status = lit ''completed'', job_progress = 100,
      job_error = None, filename = Some (lit ''paper.pdf''),
      result = None :: nat analysis_result option\<rparr> = lit ''completed'' \<and>
   rendered_title (render (lit ''job-1'')
     (fetchData_settled (Json \<lparr>job_id = lit ''job-1'', status = lit ''completed'', job_progress = 100,
        job_error = None, filename = Some (lit ''paper.pdf''), result = None\<rparr>) 0
        (mount (lit ''job-1'') :: nat page_state))) = None \<and>
   render (lit ''job-1'')
     (fetchData_settled (Json \<lparr>job_id = lit ''job-1'', status = lit ''completed'', job_progress = 100,
        job_error = None, filename = Some (lit ''paper.pdf''), result = None\<rparr>) 0
        (mount (lit ''job-1'') :: nat page_state)) = Inr NotFoundView"
  by (simp add: fetchData_settled_def render_def mount_def fetchData_begin_def)

text \<open>
  C1 (amended). Whenever a parsed status response has status \<open>completed\<close>, in
  whatever state it arrives, the page clears the polling timer, stores the response as its
  data and leaves the loading state. If the response carries a result with metadata, the
  title of the view is the title of that metadata; if it carries no result, the view is
  the static \<open>Analysis not found\<close> view.
\<close>

theorem completed_stops_polling_and_shows_title:
  assumes "status r = lit ''completed''"
  shows "pollingInterval (fetchData_settled (Json r) rnd s) = None \<and>
         data (fetchData_settled (Json r) rnd s) = Some r \<and>
         loading (fetchData_settled (Json r) rnd s) = False \<and>
         (\<forall>res m. result r = Some res \<and> metadata res = Some m \<longrightarrow>
            rendered_title (render jobId (fetchData_settled (Json r) rnd s)) = Some (title m)) \<and>
         (result r = None \<longrightarrow> render jobId (fetchData_settled (Json r) rnd s) = Inr NotFoundView)"
  using assms by (simp add: fetchData_settled_def render_def)

theorem completed_stops_polling_and_shows_title_witness:
  "status \<lparr>job_id = lit ''job-1'', status = lit ''completed'', job_progress = 100,
      job_error = None, filename = Some (lit ''paper.pdf''),
      result = Some \<lparr>metadata = Some \<lparr>title = lit ''Attention'', authors = lit ''Vaswani''\<rparr>,
        key_concepts = 1 :: nat, problem_statement = 2, full_explanation = 3, pseudo_code = 4\<rparr>\<rparr>
     = lit ''completed'' \<and>
   pollingInterval (fetchData_settled (Json \<lparr>job_id = lit ''job-1'', status = lit ''completed'', job_progress = 100,
      job_error = None, filename = Some (lit ''paper.pdf''),
      result = Some \<lparr>metadata = Some \<lparr>title = lit ''Attention'', authors = lit ''Vaswani''\<rparr>,
        key_concepts = 1 :: nat, problem_statement = 2, full_explanation = 3, pseudo_code = 4\<rparr>\<rparr>) 0
      (mount (lit ''job-1''))) = None \<and>
   rendered_title (render (lit ''job-1'')
     (fetchData_settled (Json \<lparr>job_id = lit ''job-1'', status = lit ''completed'', job_progress = 100,
      job_error = None, filename = Some (lit ''paper.pdf''),
      result = Some \<lparr>metadata = Some \<lparr>title = lit ''Attention'', authors = lit ''Vaswani''\<rparr>,
        key_concepts = 1 :: nat, problem_statement = 2, full_explanation = 3, pseudo_code = 4\<rparr>\<rparr>) 0
      (mount (lit ''job-1'')))) = Some (lit ''Attention'')"
  using completed_stops_polling_and_shows_title[of
     "\<lparr>job_id = lit ''job-1'', status = lit ''completed'', job_progress = 100,
      job_error = None, filename = Some (lit ''paper.pdf''),
      result = Some \<lparr>metadata = Some \<lparr>title = lit ''Attention'', authors = lit ''Vaswani''\<rparr>,
        key_concepts = 1 :: nat, problem_statement = 2, full_explanation = 3, pseudo_code = 4\<rparr>\<rparr>"
     0 "mount (lit ''job-1'')" "lit ''job-1''"]
  by simp

section \<open>The progress shown for a job in progress\<close>

text \<open>
  The page never reads the progress field of the job record. An \<open>in_progress\<close>
  response that reports 50, settled on the freshly mounted page with a random draw of 0,
  leaves the bar at 1.
\<close>

theorem progress_field_ignored_counterexample:
  "status \<lparr>job_id = lit ''job-1'', status = lit ''in_progress'', job_progress = 50,
      job_error = None, filename = None, result = None :: nat analysis_result option\<rparr> = lit ''in_progress'' \<and>
   job_progress \<lparr>job_id = lit ''job-1'', status = lit ''in_progress'', job_progress = 50,
      job_error = None, filename = None, result = None :: nat analysis_result option\<rparr> = 50 \<and>
   progress
     (fetchData_settled (Json \<lparr>job_id = lit ''job-1'', status = lit ''in_progress'', job_progress = 50,
        job_error = None, filename = None, result = None\<rparr>) 0
        (mount (lit ''job-1'') :: nat page_state)) \<noteq> 50 \<and>
   render (lit ''job-1'')
     (fetchData_settled (Json \<lparr>job_id = lit ''job-1'', status = lit ''in_progress'', job_progress = 50,
        job_error = None, filename = None, result = None\<rparr>) 0
        (mount (lit ''job-1'') :: nat page_state)) =
     Inr (LoadingView (lit ''job-1'') (lit ''Analyzing paper: your document'') 1)"
  by (simp add: fetchData_settled_def render_def mount_def fetchData_begin_def or_else_def
      lit_append[symmetric])

text \<open>
  C2 (amended). The progress shown for a job in progress is kept by the page itself. On an
  \<open>in_progress\<close> response the handler sets the status message and, while the counter of
  the effect is below 90, adds the random draw plus one (1 to 5) to the counter and sets
  the displayed progress to the new counter capped at 90; at 90 or above counter and
  displayed progress stay as they are. Nothing else of the state changes. The progress
  field of the response has no influence: changing it changes nothing in the resulting
  state.
\<close>

theorem progress_is_simulated_locally:
  assumes "status r = lit ''in_progress''"
  shows "fetchData_settled (Json r) rnd s =
           (if progressCounter s < 90 then
              s\<lparr>statusMessage := lit ''Analyzing paper: '' @ or_else (filename r) (lit ''your document''),
                progressCounter := progressCounter s + (rnd + 1),
                progress := min (progressCounter s + (rnd + 1)) 90\<rparr>
            else
              s\<lparr>statusMessage := lit ''Analyzing paper: '' @ or_else (filename r) (lit ''your document'')\<rparr>) \<and>
         progressCounter (fetchData_settled (Json r) rnd s) =
           (if progressCounter s < 90 then progressCounter s + (rnd + 1) else progressCounter s) \<and>
         progress (fetchData_settled (Json r) rnd s) =
           (if progressCounter s < 90 then min (progressCounter s + (rnd + 1)) 90 else progress s) \<and>
         (rnd < 5 \<and> progressCounter s < 90 \<longrightarrow>
            progressCounter s + 1 \<le> progressCounter (fetchData_settled (Json r) rnd s) \<and>
            progressCounter (fetchData_settled (Json r) rnd s) \<le> progressCounter s + 5) \<and>
         fetchData_settled (Json (r\<lparr>job_progress := p\<rparr>)) rnd s = fetchData_settled (Json r) rnd s"
  using assms by (simp add: fetchData_settled_def Let_def)

theorem progress_is_simulated_locally_witness:
  "status \<lparr>job_id = lit ''job-1'', status = lit ''in_progress'', job_progress = 50,
      job_error = None, filename = None, result = None :: nat analysis_result option\<rparr> = lit ''in_progress'' \<and> (4::nat) < 5 \<and>
   progressCounter (mount (lit ''job-1'') :: nat page_state) < 90 \<and>
   progressCounter (fetchData_settled (Json \<lparr>job_id = lit ''job-1'', status = lit ''in_progress'', job_progress = 50,
      job_error = None, filename = None, result = None :: nat analysis_result option\<rparr>) 4
      (mount (lit ''job-1''))) = 5 \<and>
   progress (fetchData_settled (Json \<lparr>job_id = lit ''job-1'', status = lit ''in_progress'', job_progress = 50,
      job_error = None, filename = None, result = None :: nat analysis_result option\<rparr>) 4
      (mount (lit ''job-1''))) = 5 \<and>
   fetchData_settled (Json (\<lparr>job_id = lit ''job-1'', status = lit ''in_progress'', job_progress = 50,
      job_error = None, filename = None, result = None :: nat analysis_result option\<rparr>\<lparr>job_progress := 75\<rparr>)) 4
      (mount (lit ''job-1'')) =
   fetchData_settled (Json \<lparr>job_id = lit ''job-1'', status = lit ''in_progress'', job_progress = 50,
      job_error = None, filename = None, result = None :: nat analysis_result option\<rparr>) 4
      (mount (lit ''job-1''))"
  using progress_is_simulated_locally[of
     "\<lparr>job_id = lit ''job-1'', status = lit ''in_progress'', job_progress = 50,
      job_error = None, filename = None, result = None :: nat analysis_result option\<rparr>"
     4 "mount (lit ''job-1'')" 75]
  by (simp add: mount_def fetchData_begin_def)

section \<open>The panels of the results view\<close>

text \<open>
  For a completed response with a result the page mounts four child components. Neither
  \<open>ArchitectureDeepDive\<close> nor \<open>ModelFile\<close> is among them.
\<close>

theorem architecture_and_model_file_not_mounted_counterexample:
  "status \<lparr>job_id = lit ''job-1'', status = lit ''completed'', job_progress = 100,
      job_error = None, filename = Some (lit ''paper.pdf''),
      result = Some \<lparr>metadata = Some \<lparr>title = lit ''Attention'', authors = lit ''Vaswani''\<rparr>,
        key_concepts = 1 :: nat, problem_statement = 2, full_explanation = 3, pseudo_code = 4\<rparr>\<rparr>
     = lit ''completed'' \<and>
   panels (render (lit ''job-1'')
     (fetchData_settled (Json \<lparr>job_id = lit ''job-1'', status = lit ''completed'', job_progress = 100,
      job_error = None, filename = Some (lit ''paper.pdf''),
      result = Some \<lparr>metadata = Some \<lparr>title = lit ''Attention'', authors = lit ''Vaswani''\<rparr>,
        key_concepts = 1 :: nat, problem_statement = 2, full_explanation = 3, pseudo_code = 4\<rparr>\<rparr>) 0
      (mount (lit ''job-1'')))) =
     [KeyConcepts 1, ProblemStatement 2, FullExplanation 3, PseudoCode 4] \<and>
   \<not> list_ex is_ArchitectureDeepDive (panels (render (lit ''job-1'')
     (fetchData_settled (Json \<lparr>job_id = lit ''job-1'', status = lit ''completed'', job_progress = 100,
      job_error = None, filename = Some (lit ''paper.pdf''),
      result = Some \<lparr>metadata = Some \<lparr>title = lit ''Attention'', authors = lit ''Vaswani''\<rparr>,
        key_concepts = 1 :: nat, problem_statement = 2, full_explanation = 3, pseudo_code = 4\<rparr>\<rparr>) 0
      (mount (lit ''job-1''))))) \<and>
   \<not> list_ex is_ModelFile (panels (render (lit ''job-1'')
     (fetchData_settled (Json \<lparr>job_id = lit ''job-1'', status = lit ''completed'', job_progress = 100,
      job_error = None, filename = Some (lit ''paper.pdf''),
      result = Some \<lparr>metadata = Some \<lparr>title = lit ''Attention'', authors = lit ''Vaswani''\<rparr>,
        key_concepts = 1 :: nat, problem_statement = 2, full_explanation = 3, pseudo_code = 4\<rparr>\<rparr>) 0
      (mount (lit ''job-1'')))))"
  by (simp add: fetchData_settled_def render_def mount_def fetchData_begin_def)

text \<open>
  C3 (amended). For every completed status response that carries a result with metadata,
  the results view shows the title and the authors and mounts exactly four panels, in this
  order: key concepts, problem statement, full explanation, pseudo-code. It mounts neither
  the architecture deep-dive nor the model file component.
\<close>

theorem completed_view_mounts_four_panels:
  assumes "status r = lit ''completed''" and "result r = Some res" and "metadata res = Some m"
  shows "render jobId (fetchData_settled (Json r) rnd s) =
           Inr (AnalysisView (title m) (authors m)
                 [KeyConcepts (key_concepts res), ProblemStatement (problem_statement res),
                  FullExplanation (full_explanation res), PseudoCode (pseudo_code res)]) \<and>
         \<not> list_ex is_ArchitectureDeepDive (panels (render jobId (fetchData_settled (Json r) rnd s))) \<and>
         \<not> list_ex is_ModelFile (panels (render jobId (fetchData_settled (Json r) rnd s)))"
  using assms by (simp add: fetchData_settled_def render_def)

theorem completed_view_mounts_four_panels_witness:
  "status \<lparr>job_id = lit ''job-1'', status = lit ''completed'', job_progress = 100,
      job_error = None, filename = Some (lit ''paper.pdf''),
      result = Some \<lparr>metadata = Some \<lparr>title = lit ''Attention'', authors = lit ''Vaswani''\<rparr>,
        key_concepts = 1 :: nat, problem_statement = 2, full_explanation = 3, pseudo_code = 4\<rparr>\<rparr>
     = lit ''completed'' \<and>
   render (lit ''job-1'')
     (fetchData_settled (Json \<lparr>job_id = lit ''job-1'', status = lit ''completed'', job_progress = 100,
      job_error = None, filename = Some (lit ''paper.pdf''),
      result = Some \<lparr>metadata = Some \<lparr>title = lit ''Attention'', authors = lit ''Vaswani''\<rparr>,
        key_concepts = 1 :: nat, problem_statement = 2, full_explanation = 3, pseudo_code = 4\<rparr>\<rparr>) 0
      (mount (lit ''job-1''))) =
     Inr (AnalysisView (lit ''Attention'') (lit ''Vaswani'')
           [KeyConcepts 1, ProblemStatement 2, FullExplanation 3, PseudoCode 4])"
  using completed_view_mounts_four_panels[of
     "\<lparr>job_id = lit ''job-1'', status = lit ''completed'', job_progress = 100,
      job_error = None, filename = Some (lit ''paper.pdf''),
      result = Some \<lparr>metadata = Some \<lparr>title = lit ''Attention'', authors = lit ''Vaswani''\<rparr>,
        key_concepts = 1 :: nat, problem_statement = 2, full_explanation = 3, pseudo_code = 4\<rparr>\<rparr>"
     "\<lparr>metadata = Some \<lparr>title = lit ''Attention'', authors = lit ''Vaswani''\<rparr>,
        key_concepts = 1 :: nat, problem_statement = 2, full_explanation = 3, pseudo_code = 4\<rparr>"
     "\<lparr>title = lit ''Attention'', authors = lit ''Vaswani''\<rparr>"
     "lit ''job-1''" 0 "mount (lit ''job-1'')"]
  by simp

section \<open>A failed fetch or a failed job\<close>

text \<open>
  No view reads the error cell. With a result already stored, a fetch that fails
  afterwards leaves the analysis on the screen, and no message with it: two fetches are
  under way, the first settles with a completed job, the second is rejected.
\<close>

theorem failed_fetch_shows_no_message_counterexample:
  "reports_failure (Rejected :: nat job_record fetch_outcome) \<and>
   map_option (render (lit ''job-1''))
     (run (lit ''job-1'')
        [PollingFires, FetchSettles (Json \<lparr>job_id = lit ''job-1'', status = lit ''completed'', job_progress = 100,
      job_error = None, filename = Some (lit ''paper.pdf''),
      result = Some \<lparr>metadata = Some \<lparr>title = lit ''Attention'', authors = lit ''Vaswani''\<rparr>,
        key_concepts = 1 :: nat, problem_statement = 2, full_explanation = 3, pseudo_code = 4\<rparr>\<rparr>) 0, FetchSettles Rejected 0]
        (mount (lit ''job-1''))) =
     Some (Inr (AnalysisView (lit ''Attention'') (lit ''Vaswani'')
                 [KeyConcepts 1, ProblemStatement 2, FullExplanation 3, PseudoCode 4])) \<and>
   map_option error
     (run (lit ''job-1'')
        [PollingFires, FetchSettles (Json \<lparr>job_id = lit ''job-1'', status = lit ''completed'', job_progress = 100,
      job_error = None, filename = Some (lit ''paper.pdf''),
      result = Some \<lparr>metadata = Some \<lparr>title = lit ''Attention'', authors = lit ''Vaswani''\<rparr>,
        key_concepts = 1 :: nat, problem_statement = 2, full_explanation = 3, pseudo_code = 4\<rparr>\<rparr>) 0, FetchSettles Rejected 0]
        (mount (lit ''job-1''))) =
     Some (Some (lit ''Failed to connect to analysis server. Please try again later.''))"
  by (simp add: mount_def fetchData_begin_def fetchData_settled_def render_def)

text \<open>
  C4 (amended). When a status fetch fails (the promise rejects, the response is not ok, or
  the body is not JSON) or the response has status \<open>failed\<close>, the handler clears the
  loading state and the polling timer, stores an error string in the error cell (for a
  failed job it embeds the error text of the server), and leaves the stored data as it
  was. No view displays the error cell: the page renders what it would render from the
  earlier state with loading cleared, that is the static \<open>Analysis not found\<close> view if
  the stored data has no result, and the analysis view if a result with metadata is
  stored. Nothing is retried: along every schedule of the same run of the effect that
  follows, the polling timer never fires, no further request is issued, and the page never
  returns to the loading state.
\<close>

theorem failure_ends_polling_without_retry:
  assumes "reports_failure out"
    and "run jobId evs (fetchData_settled out rnd s) = Some s'"
    and "list_all one_run evs"
  shows "loading (fetchData_settled out rnd s) = False \<and>
         pollingInterval (fetchData_settled out rnd s) = None \<and>
         \<not> enabled PollingFires (fetchData_settled out rnd s) \<and>
         data (fetchData_settled out rnd s) = data s \<and>
         error (fetchData_settled out rnd s) =
           Some (case out of
                   Json r \<Rightarrow> lit ''Analysis failed: '' @ or_else (job_error r) (lit ''Unknown error'')
                 | _ \<Rightarrow> lit ''Failed to connect to analysis server. Please try again later.'') \<and>
         render jobId (fetchData_settled out rnd s) = render jobId (s\<lparr>loading := False\<rparr>) \<and>
         render jobId (s\<lparr>error := e\<rparr>) = render jobId s \<and>
         ((case data s of None \<Rightarrow> True | Some d \<Rightarrow> result d = None) \<longrightarrow>
            render jobId (fetchData_settled out rnd s) = Inr NotFoundView) \<and>
         (\<forall>d res m. data s = Some d \<and> result d = Some res \<and> metadata res = Some m \<longrightarrow>
            render jobId (fetchData_settled out rnd s) =
              Inr (AnalysisView (title m) (authors m)
                    [KeyConcepts (key_concepts res), ProblemStatement (problem_statement res),
                     FullExplanation (full_explanation res), PseudoCode (pseudo_code res)])) \<and>
         requests s' = requests s \<and> PollingFires \<notin> set evs \<and>
         pollingInterval s' = None \<and> loading s' = False"
proof -
  let ?t = "fetchData_settled out rnd s"
  have now: "loading ?t = False \<and> pollingInterval ?t = None \<and> data ?t = data s \<and>
     error ?t = Some (case out of
                   Json r \<Rightarrow> lit ''Analysis failed: '' @ or_else (job_error r) (lit ''Unknown error'')
                 | _ \<Rightarrow> lit ''Failed to connect to analysis server. Please try again later.'') \<and>
     statusMessage ?t = statusMessage s \<and> progress ?t = progress s"
    using assms(1) by (cases out) (simp_all add: fetchData_settled_def)
  then have same: "render jobId ?t = render jobId (s\<lparr>loading := False\<rparr>)"
    by (simp add: render_def)
  have blind: "render jobId (s\<lparr>error := e\<rparr>) = render jobId s"
    by (simp add: render_def)
  from now have view: "(case data s of None \<Rightarrow> True | Some d \<Rightarrow> result d = None) \<longrightarrow>
            render jobId ?t = Inr NotFoundView"
    by (simp add: render_def split: option.splits)
  from now have shown: "\<forall>d res m. data s = Some d \<and> result d = Some res \<and> metadata res = Some m \<longrightarrow>
            render jobId ?t =
              Inr (AnalysisView (title m) (authors m)
                    [KeyConcepts (key_concepts res), ProblemStatement (problem_statement res),
                     FullExplanation (full_explanation res), PseudoCode (pseudo_code res)])"
    by (simp add: render_def)
  from now have p: "pollingInterval ?t = None" and l: "\<not> loading ?t" by simp_all
  from run_polling_cleared[OF assms(2) p assms(3)] run_loading[OF assms(2) l]
    fetchData_settled_frame[of out rnd s]
  have later: "requests s' = requests s \<and> PollingFires \<notin> set evs \<and>
      pollingInterval s' = None \<and> loading s' = False"
    by simp
  from now same blind view shown later show ?thesis by simp
qed

theorem failure_ends_polling_without_retry_witness:
  "reports_failure (Json \<lparr>job_id = lit ''job-1'', status = lit ''failed'', job_progress = 40,
      job_error = Some (lit ''disk full''), filename = None,
      result = None :: nat analysis_result option\<rparr>) \<and>
   list_all one_run [ProgressFires, FetchSettles Rejected 1 :: nat page_event] \<and>
   render (lit ''job-1'')
     (fetchData_settled (Json \<lparr>job_id = lit ''job-1'', status = lit ''failed'', job_progress = 40,
      job_error = Some (lit ''disk full''), filename = None,
      result = None :: nat analysis_result option\<rparr>) 0
        (mount (lit ''job-1'') :: nat page_state)) = Inr NotFoundView \<and>
   error
     (fetchData_settled (Json \<lparr>job_id = lit ''job-1'', status = lit ''failed'', job_progress = 40,
      job_error = Some (lit ''disk full''), filename = None,
      result = None :: nat analysis_result option\<rparr>) 0
        (mount (lit ''job-1'') :: nat page_state)) = Some (lit ''Analysis failed: disk full'') \<and>
   map_option requests
     (run (lit ''job-1'') [ProgressFires, FetchSettles Rejected 1]
       (fetchData_settled (Json \<lparr>job_id = lit ''job-1'', status = lit ''failed'', job_progress = 40,
      job_error = Some (lit ''disk full''), filename = None,
      result = None :: nat analysis_result option\<rparr>) 0
          (mount (lit ''job-1'') :: nat page_state))) = Some [GET (status_url (lit ''job-1''))]"
proof -
  have f: "reports_failure (Json \<lparr>job_id = lit ''job-1'', status = lit ''failed'', job_progress = 40,
      job_error = Some (lit ''disk full''), filename = None,
      result = None :: nat analysis_result option\<rparr>)"
    by simp
  have o: "list_all one_run [ProgressFires, FetchSettles Rejected 1 :: nat page_event]"
    by simp
  have "run (lit ''job-1'') [ProgressFires, FetchSettles Rejected 1]
       (fetchData_settled (Json \<lparr>job_id = lit ''job-1'', status = lit ''failed'', job_progress = 40,
      job_error = Some (lit ''disk full''), filename = None,
      result = None :: nat analysis_result option\<rparr>) 0
          (mount (lit ''job-1'') :: nat page_state)) \<noteq> None"
    by (simp add: mount_def fetchData_begin_def fetchData_settled_def
        progressInterval_callback_def Let_def)
  then obtain s' where r: "run (lit ''job-1'') [ProgressFires, FetchSettles Rejected 1]
       (fetchData_settled (Json \<lparr>job_id = lit ''job-1'', status = lit ''failed'', job_progress = 40,
      job_error = Some (lit ''disk full''), filename = None,
      result = None :: nat analysis_result option\<rparr>) 0
          (mount (lit ''job-1'') :: nat page_state)) = Some s'"
    by blast
  from failure_ends_polling_without_retry[OF f r o, where e = None] f o show ?thesis
    unfolding r
    by (simp add: mount_def fetchData_begin_def or_else_def render_def lit_append[symmetric])
qed

section \<open>Sending a chat message\<close>

text \<open>
  C5. Sending a message that is not blank issues one POST to the chat URL of the job whose
  message is the text as typed (not trimmed), and appends the entry (timestamp, the text,
  empty response) to the local history. When the POST settles with a parsed body, one GET
  to the same URL follows and the history is still the one with the pending entry. When
  that GET settles with a log, the local history is that log, in the server's order.
\<close>

theorem send_posts_text_and_refetches_log:
  assumes "trim (message s) \<noteq> []"
  shows "sent (sendMessage_begin jobId now s) = sent s @ [POST (chat_url jobId) (message s)] \<and>
         chatHistory (sendMessage_begin jobId now s) =
           chatHistory s @ [\<lparr>timestamp = now, query = message s, response = []\<rparr>] \<and>
         sent (sendMessage_settled jobId (Json ()) (sendMessage_begin jobId now s)) =
           sent s @ [POST (chat_url jobId) (message s), GET (chat_url jobId)] \<and>
         chatHistory (sendMessage_settled jobId (Json ()) (sendMessage_begin jobId now s)) =
           chatHistory (sendMessage_begin jobId now s) \<and>
         chatHistory (fetchChatHistory_settled (Json \<lparr>chat_history = Some log\<rparr>)
            (sendMessage_settled jobId (Json ()) (sendMessage_begin jobId now s))) = log \<and>
         sent (fetchChatHistory_settled (Json \<lparr>chat_history = Some log\<rparr>)
            (sendMessage_settled jobId (Json ()) (sendMessage_begin jobId now s))) =
           sent s @ [POST (chat_url jobId) (message s), GET (chat_url jobId)]"
  using assms
  by (simp add: sendMessage_begin_def sendMessage_settled_def fetchChatHistory_begin_def
      fetchChatHistory_settled_def Let_def)

theorem send_posts_text_and_refetches_log_witness:
  "trim (message (initial_panel\<lparr>isOpen := True, message := lit '' Why?''\<rparr>)) \<noteq> [] \<and>
   sent (sendMessage_begin (lit ''job-1'') (lit ''2024-01-01T00:00:00.000Z'')
          (initial_panel\<lparr>isOpen := True, message := lit '' Why?''\<rparr>)) =
     [POST (chat_url (lit ''job-1'')) (lit '' Why?'')] \<and>
   chatHistory (sendMessage_begin (lit ''job-1'') (lit ''2024-01-01T00:00:00.000Z'')
          (initial_panel\<lparr>isOpen := True, message := lit '' Why?''\<rparr>)) =
     [\<lparr>timestamp = lit ''2024-01-01T00:00:00.000Z'', query = lit '' Why?'', response = []\<rparr>] \<and>
   chatHistory (fetchChatHistory_settled
      (Json \<lparr>chat_history = Some [\<lparr>timestamp = lit ''2024-01-01T00:00:01.000Z'',
          query = lit '' Why?'', response = lit ''Because.''\<rparr>]\<rparr>)
      (sendMessage_settled (lit ''job-1'') (Json ())
        (sendMessage_begin (lit ''job-1'') (lit ''2024-01-01T00:00:00.000Z'')
          (initial_panel\<lparr>isOpen := True, message := lit '' Why?''\<rparr>)))) =
     [\<lparr>timestamp = lit ''2024-01-01T00:00:01.000Z'', query = lit '' Why?'',
       response = lit ''Because.''\<rparr>]"
proof -
  have nb: "trim (message (initial_panel\<lparr>isOpen := True, message := lit '' Why?''\<rparr>)) \<noteq> []"
    by (simp add: trim_def lit_def isWhiteSpace_def)
  from send_posts_text_and_refetches_log[OF nb, of "lit ''job-1''" "lit ''2024-01-01T00:00:00.000Z''"
      "[\<lparr>timestamp = lit ''2024-01-01T00:00:01.000Z'',
          query = lit '' Why?'', response = lit ''Because.''\<rparr>]"] nb
  show ?thesis by (simp add: initial_panel_def)
qed

section \<open>The polling timer\<close>

text \<open>
  C6. Along every schedule from the mounted page on which no fetch fails, no response is
  \<open>completed\<close> or \<open>failed\<close>, and the effect is not cleaned up, the polling
  timer stays armed with the one delay it was created with, 3000 ms. The requests issued
  are the GET of the mount and one GET to the status URL per firing of the timer, and
  nothing else: a settled fetch issues none (no retry), and a firing issues its GET
  whatever the number of fetches still under way (no deduplication).
\<close>

theorem polling_keeps_fixed_delay:
  assumes "run jobId evs (mount jobId) = Some s" and "list_all keeps_polling evs"
  shows "pollingInterval s = Some 3000 \<and> enabled PollingFires s \<and>
         requests s = replicate (Suc (count_list evs PollingFires)) (GET (status_url jobId)) \<and>
         requests (fire jobId PollingFires s) = requests s @ [GET (status_url jobId)] \<and>
         pending (fire jobId PollingFires s) = Suc (pending s)"
proof -
  from run_keeps_polling[OF assms]
  have "pollingInterval s = Some 3000"
    and "requests s = replicate (Suc (count_list evs PollingFires)) (GET (status_url jobId))"
    by (simp_all add: mount_def fetchData_begin_def)
  then show ?thesis by (simp add: fetchData_begin_def)
qed

theorem polling_keeps_fixed_delay_witness:
  "list_all keeps_polling
     [PollingFires,
      FetchSettles (Json \<lparr>job_id = lit ''job-1'', status = lit ''in_progress'', job_progress = 40,
        job_error = None, filename = None, result = None :: nat analysis_result option\<rparr>) 3,
      ProgressFires, PollingFires] \<and>
   map_option pollingInterval (run (lit ''job-1'')
     [PollingFires,
      FetchSettles (Json \<lparr>job_id = lit ''job-1'', status = lit ''in_progress'', job_progress = 40,
        job_error = None, filename = None, result = None :: nat analysis_result option\<rparr>) 3,
      ProgressFires, PollingFires] (mount (lit ''job-1''))) = Some (Some 3000) \<and>
   map_option requests (run (lit ''job-1'')
     [PollingFires,
      FetchSettles (Json \<lparr>job_id = lit ''job-1'', status = lit ''in_progress'', job_progress = 40,
        job_error = None, filename = None, result = None :: nat analysis_result option\<rparr>) 3,
      ProgressFires, PollingFires] (mount (lit ''job-1''))) =
     Some [GET (status_url (lit ''job-1'')), GET (status_url (lit ''job-1'')),
           GET (status_url (lit ''job-1''))]"
proof -
  have k: "list_all keeps_polling
     [PollingFires,
      FetchSettles (Json \<lparr>job_id = lit ''job-1'', status = lit ''in_progress'', job_progress = 40,
        job_error = None, filename = None, result = None :: nat analysis_result option\<rparr>) 3,
      ProgressFires, PollingFires]"
    by simp
  have "run (lit ''job-1'')
     [PollingFires,
      FetchSettles (Json \<lparr>job_id = lit ''job-1'', status = lit ''in_progress'', job_progress = 40,
        job_error = None, filename = None, result = None :: nat analysis_result option\<rparr>) 3,
      ProgressFires, PollingFires] (mount (lit ''job-1'')) \<noteq> None"
    by (simp add: mount_def fetchData_begin_def fetchData_settled_def
        progressInterval_callback_def Let_def)
  then obtain s where r: "run (lit ''job-1'')
     [PollingFires,
      FetchSettles (Json \<lparr>job_id = lit ''job-1'', status = lit ''in_progress'', job_progress = 40,
        job_error = None, filename = None, result = None :: nat analysis_result option\<rparr>) 3,
      ProgressFires, PollingFires] (mount (lit ''job-1'')) = Some s"
    by blast
  from polling_keeps_fixed_delay[OF r k] k show ?thesis
    unfolding r by (simp add: numeral_3_eq_3)
qed

section \<open>Unmounting and changing the job\<close>




section \<open>What failed requests leave unchanged\<close>

text \<open>
  C8. When the chat POST fails, the history keeps its length, every entry but the last is
  unchanged, and the last entry keeps its query and timestamp and gets the apology as its
  response; no request is issued. When a status fetch fails, the stored data is unchanged;
  when the chat-history fetch fails, the chat history is unchanged.
\<close>

theorem failed_requests_touch_only_last_response:
  assumes "failed_fetch post" and "failed_fetch status_get" and "failed_fetch chat_get"
  shows "length (chatHistory (sendMessage_settled jobId post c)) = length (chatHistory c) \<and>
         butlast (chatHistory (sendMessage_settled jobId post c)) = butlast (chatHistory c) \<and>
         (chatHistory c \<noteq> [] \<longrightarrow>
            last (chatHistory (sendMessage_settled jobId post c)) =
              (last (chatHistory c))
                \<lparr>response := lit ''Sorry, there was an error processing your request. Please try again.''\<rparr>) \<and>
         map query (chatHistory (sendMessage_settled jobId post c)) = map query (chatHistory c) \<and>
         map timestamp (chatHistory (sendMessage_settled jobId post c)) = map timestamp (chatHistory c) \<and>
         sent (sendMessage_settled jobId post c) = sent c \<and>
         data (fetchData_settled status_get rnd p) = data p \<and>
         chatHistory (fetchChatHistory_settled chat_get c) = chatHistory c"
proof -
  let ?h = "chatHistory c"
  have h: "chatHistory (sendMessage_settled jobId post c) = mark_failed ?h"
    and snt: "sent (sendMessage_settled jobId post c) = sent c"
    using assms(1) by (cases post; simp add: sendMessage_settled_def)+
  have d: "data (fetchData_settled status_get rnd p) = data p"
    using assms(2) by (cases status_get) (simp_all add: fetchData_settled_def)
  have g: "chatHistory (fetchChatHistory_settled chat_get c) = chatHistory c"
    using assms(3) by (cases chat_get) (simp_all add: fetchChatHistory_settled_def)
  have m: "length (mark_failed ?h) = length ?h \<and> butlast (mark_failed ?h) = butlast ?h \<and>
        (?h \<noteq> [] \<longrightarrow> last (mark_failed ?h) = (last ?h)
                \<lparr>response := lit ''Sorry, there was an error processing your request. Please try again.''\<rparr>) \<and>
        map query (mark_failed ?h) = map query ?h \<and> map timestamp (mark_failed ?h) = map timestamp ?h"
  proof (cases ?h rule: rev_cases)
    case Nil
    then show ?thesis by (simp add: mark_failed_eq)
  next
    case (snoc ys y)
    then show ?thesis by (simp add: mark_failed_eq)
  qed
  from h snt d g m show ?thesis by simp
qed

theorem failed_requests_touch_only_last_response_witness:
  "failed_fetch (NotOk 500 :: unit fetch_outcome) \<and>
   failed_fetch (Rejected :: nat job_record fetch_outcome) \<and>
   failed_fetch (BadJson :: chat_log fetch_outcome) \<and>
   chatHistory (sendMessage_settled (lit ''job-1'') (NotOk 500)
     (initial_panel\<lparr>chatHistory :=
        [\<lparr>timestamp = lit ''t1'', query = lit ''q1'', response = lit ''r1''\<rparr>,
         \<lparr>timestamp = lit ''t2'', query = lit ''q2'', response = []\<rparr>]\<rparr>)) =
     [\<lparr>timestamp = lit ''t1'', query = lit ''q1'', response = lit ''r1''\<rparr>,
      \<lparr>timestamp = lit ''t2'', query = lit ''q2'',
        response = lit ''Sorry, there was an error processing your request. Please try again.''\<rparr>] \<and>
   data (fetchData_settled Rejected 0 (mount (lit ''job-1'') :: nat page_state)) = None"
proof -
  have a: "failed_fetch (NotOk 500 :: unit fetch_outcome)"
    and b: "failed_fetch (Rejected :: nat job_record fetch_outcome)"
    and c: "failed_fetch (BadJson :: chat_log fetch_outcome)"
    by simp_all
  from failed_requests_touch_only_last_response[OF a b c, of "lit ''job-1''"
      "initial_panel\<lparr>chatHistory :=
        [\<lparr>timestamp = lit ''t1'', query = lit ''q1'', response = lit ''r1''\<rparr>,
         \<lparr>timestamp = lit ''t2'', query = lit ''q2'', response = []\<rparr>]\<rparr>"
      0 "mount (lit ''job-1'')"]
  show ?thesis
    by (simp add: initial_panel_def mount_def fetchData_begin_def sendMessage_settled_def
        mark_failed_def)
qed

section \<open>The progress bar\<close>




section \<open>The chat panel: width and blank messages\<close>

text \<open>
  C10. The chat panel starts 384 pixels wide, and after any sequence of events its width
  is between 320 and 1200. A mouse move leaves the width as it was or sets it to a value
  in that range. Sending a message made of white space only (or empty) returns the state
  it was given: nothing is posted and no cell changes.
\<close>

theorem panel_width_stays_in_range:
  "panelWidth initial_panel = 384 \<and>
   320 \<le> panelWidth (chat_run jobId evs initial_panel) \<and>
   panelWidth (chat_run jobId evs initial_panel) \<le> 1200 \<and>
   (panelWidth (handleMouseMove innerWidth clientX s) = panelWidth s \<or>
    320 \<le> panelWidth (handleMouseMove innerWidth clientX s) \<and>
    panelWidth (handleMouseMove innerWidth clientX s) \<le> 1200) \<and>
   (list_all isWhiteSpace (message s) \<longrightarrow> sendMessage_begin jobId now s = s)"
proof -
  have init: "minWidth \<le> panelWidth initial_panel \<and> panelWidth initial_panel \<le> maxWidth"
    by (simp add: initial_panel_def minWidth_def maxWidth_def)
  have run: "320 \<le> panelWidth (chat_run jobId evs initial_panel) \<and>
             panelWidth (chat_run jobId evs initial_panel) \<le> 1200"
    using chat_run_width[OF init, of jobId evs] by (simp add: minWidth_def maxWidth_def)
  have move: "panelWidth (handleMouseMove innerWidth clientX s) = panelWidth s \<or>
    320 \<le> panelWidth (handleMouseMove innerWidth clientX s) \<and>
    panelWidth (handleMouseMove innerWidth clientX s) \<le> 1200"
    by (simp add: handleMouseMove_def Let_def minWidth_def maxWidth_def)
  have blank: "list_all isWhiteSpace (message s) \<longrightarrow> sendMessage_begin jobId now s = s"
    by (simp add: sendMessage_begin_def trim_blank)
  have w: "panelWidth initial_panel = 384" by (simp add: initial_panel_def)
  from w run move blank show ?thesis by blast
qed

theorem panel_width_stays_in_range_witness:
  "list_all isWhiteSpace (message \<lparr>isOpen = True, chatHistory = [], message = [0x20, 0x0A, 0x2003],
       isLoading = False, panelWidth = 384, isResizing = True, sent = []\<rparr>) \<and>
   sendMessage_begin (lit ''job-1'') (lit ''2024-01-01T00:00:00.000Z'')
     \<lparr>isOpen = True, chatHistory = [], message = [0x20, 0x0A, 0x2003],
       isLoading = False, panelWidth = 384, isResizing = True, sent = []\<rparr> =
     \<lparr>isOpen = True, chatHistory = [], message = [0x20, 0x0A, 0x2003],
       isLoading = False, panelWidth = 384, isResizing = True, sent = []\<rparr> \<and>
   panelWidth (chat_run (lit ''job-1'')
     [Toggle, MouseDown, MouseMove 1920 1000, MouseMove 1920 100, MouseUp, MouseMove 1920 1500]
     initial_panel) = 920 \<and>
   panelWidth (handleMouseMove 1920 1000
     \<lparr>isOpen = True, chatHistory = [], message = [0x20, 0x0A, 0x2003],
       isLoading = False, panelWidth = 384, isResizing = True, sent = []\<rparr>) = 920"
  using panel_width_stays_in_range[of "lit ''job-1''"
      "[Toggle, MouseDown, MouseMove 1920 1000, MouseMove 1920 100, MouseUp, MouseMove 1920 1500]"
      1920 1000
      "\<lparr>isOpen = True, chatHistory = [], message = [0x20, 0x0A, 0x2003],
         isLoading = False, panelWidth = 384, isResizing = True, sent = []\<rparr>"
      "lit ''2024-01-01T00:00:00.000Z''"]
  by (simp add: isWhiteSpace_def initial_panel_def togglePanel_def fetchChatHistory_begin_def
      startResizing_def handleMouseUp_def handleMouseMove_def minWidth_def maxWidth_def Let_def)

end
